theory Spec2Isabelle
  imports Main
begin

section \<open>Billing-state reconciliation: the subscription controller\<close>

text \<open>
  A shallow embedding of \<^verbatim>\<open>backend/src/controllers/subscription.controller.js\<close> and of
  the wrapper module \<^verbatim>\<open>backend/src/config/stripe.js\<close> it requires. The User collection is
  a list of documents, passed in and returned; a document carries the fields that the
  controller reads and writes. Everything outside the repository (the Stripe client, the
  database driver's write, the analytics service) is a field of the environment \<open>env\<close>:
  a function from the call's arguments to its result, so that every throw of a
  collaborator is a branch of the model.
\<close>

subsection \<open>Values and errors\<close>

datatype exn =
    ApiError nat string
  | TypeError string
  | StripeError string
  | StoreError string
  | AnalyticsError string

fun message :: "exn \<Rightarrow> string" where
  "message (ApiError c m) = m"
| "message (TypeError m) = m"
| "message (StripeError m) = m"
| "message (StoreError m) = m"
| "message (AnalyticsError m) = m"

definition BAD_REQUEST :: nat where "BAD_REQUEST = 400"
definition NOT_FOUND :: nat where "NOT_FOUND = 404"
definition OK :: nat where "OK = 200"

text \<open>JavaScript truthiness of a string-valued property: \<open>undefined\<close>, \<open>null\<close> and the
  empty string are falsy.\<close>

definition truthy :: "string option \<Rightarrow> bool" where
  "truthy v = (case v of None \<Rightarrow> False | Some s \<Rightarrow> s \<noteq> [])"

subsection \<open>Documents of the User collection\<close>

text \<open>The fields of \<open>user.subscription\<close> that the controller reads and writes. A missing
  property is \<open>None\<close>; \<open>currentPeriodEnd\<close> is a Date, in milliseconds; a missing
  \<open>cancelAtPeriodEnd\<close> reads as false.\<close>

record subscription_doc =
  subscriptionId :: "string option"
  planId :: "string option"
  status :: "string option"
  currentPeriodEnd :: "int option"
  cancelAtPeriodEnd :: bool

record user =
  user_id :: string
  stripeCustomerId :: "string option"
  subscription :: "subscription_doc option"
  roles :: "string list"

subsection \<open>Objects of the billing provider\<close>

text \<open>\<open>price_ids\<close> lists \<open>items.data[i].price.id\<close>.\<close>

record stripe_subscription =
  sub_id :: string
  sub_customer :: string
  sub_status :: string
  current_period_end :: int
  cancel_at_period_end :: bool
  price_ids :: "string list"

record checkout_session =
  cs_id :: string
  cs_subscription :: "string option"
  cs_customer :: "string option"

record invoice =
  in_id :: string
  in_subscription :: "string option"
  in_customer :: "string option"

datatype stripe_object =
    Session checkout_session
  | Subscription stripe_subscription
  | Invoice invoice

text \<open>Property reads on \<open>event.data.object\<close>, whatever its kind: a subscription object
  has no \<open>subscription\<close> property.\<close>

fun obj_id :: "stripe_object \<Rightarrow> string" where
  "obj_id (Session c) = cs_id c"
| "obj_id (Subscription s) = sub_id s"
| "obj_id (Invoice i) = in_id i"

fun obj_subscription :: "stripe_object \<Rightarrow> string option" where
  "obj_subscription (Session c) = cs_subscription c"
| "obj_subscription (Subscription s) = None"
| "obj_subscription (Invoice i) = in_subscription i"

fun obj_customer :: "stripe_object \<Rightarrow> string option" where
  "obj_customer (Session c) = cs_customer c"
| "obj_customer (Subscription s) = Some (sub_customer s)"
| "obj_customer (Invoice i) = in_customer i"

text \<open>A provider event. \<open>created\<close> is the provider-reported time of the event; the
  controller reads \<open>ev_type\<close> and \<open>data_object\<close> only.\<close>

record event =
  ev_id :: string
  ev_type :: string
  created :: int
  data_object :: stripe_object

text \<open>Requests that change the provider's state, as the Stripe client sends them:
  \<open>subscriptions.update(id, params)\<close> with the \<open>cancel_at_period_end\<close> and the
  \<open>items[0].price\<close> parameter (each optional), and \<open>subscriptions.cancel(id)\<close>.\<close>

datatype provider_request =
    SubscriptionsUpdate string "bool option" "string option"
  | SubscriptionsCancel string

subsection \<open>The environment\<close>

record env =
  webhookSecret :: string
  monthlyPlanId :: "string option"
  yearlyPlanId :: "string option"
  constructEvent :: "string \<Rightarrow> string \<Rightarrow> string \<Rightarrow> exn + event"
  retrieve :: "string \<Rightarrow> exn + stripe_subscription"
  provider :: "provider_request \<Rightarrow> exn + stripe_subscription"
  saveFails :: "user \<Rightarrow> exn option"
  trackFails :: "string \<Rightarrow> exn option"

subsection \<open>The User model\<close>

definition findOne :: "(user \<Rightarrow> bool) \<Rightarrow> user list \<Rightarrow> user option" where
  "findOne P db = find P db"

definition findById :: "string \<Rightarrow> user list \<Rightarrow> user option" where
  "findById uid db = findOne (\<lambda>u. user_id u = uid) db"

text \<open>The filter \<open>{ 'subscription.subscriptionId': sid }\<close>.\<close>

definition bySubscriptionId :: "string \<Rightarrow> user \<Rightarrow> bool" where
  "bySubscriptionId sid u =
     (case subscription u of None \<Rightarrow> False | Some s \<Rightarrow> subscriptionId s = Some sid)"

text \<open>The filter \<open>{ stripeCustomerId: cid }\<close>.\<close>

definition byCustomerId :: "string option \<Rightarrow> user \<Rightarrow> bool" where
  "byCustomerId cid u = (stripeCustomerId u = cid)"

text \<open>\<open>user.save()\<close>: throws what the store answers, else writes the document back under
  its \<open>_id\<close>.\<close>

definition write_back :: "user \<Rightarrow> user list \<Rightarrow> user list" where
  "write_back u db = map (\<lambda>v. if user_id v = user_id u then u else v) db"

definition save :: "env \<Rightarrow> user \<Rightarrow> user list \<Rightarrow> exn + user list" where
  "save e u db =
     (case saveFails e u of
        Some err \<Rightarrow> Inl err
      | None \<Rightarrow> Inr (write_back u db))"

subsection \<open>config/stripe.js\<close>

text \<open>What \<open>module.exports\<close> of config/stripe.js holds, in its order.\<close>

definition stripe_exports :: "string list" where
  "stripe_exports =
     [''stripe'', ''createCheckoutSession'', ''getSubscription'', ''getCustomer'',
      ''updateSubscription'', ''cancelSubscription'', ''reactivateSubscription'',
      ''createCustomerPortalSession'', ''constructEventFromPayload'', ''createUsageRecord'',
      ''getUpcomingInvoice'', ''getPaymentMethods'', ''applyDiscount'', ''getInvoices'',
      ''constructEventFromWebhook'']"

text \<open>\<open>getSubscription(subscriptionId)\<close>: logs and rethrows.\<close>

definition getSubscription :: "env \<Rightarrow> string \<Rightarrow> exn + stripe_subscription" where
  "getSubscription e sid = retrieve e sid"

text \<open>\<open>cancelSubscription(subscriptionId, atPeriodEnd)\<close>: the request it sends, and the
  provider's answer.\<close>

definition cancelRequest :: "string \<Rightarrow> bool \<Rightarrow> provider_request" where
  "cancelRequest sid atPeriodEnd =
     (if atPeriodEnd then SubscriptionsUpdate sid (Some True) None
      else SubscriptionsCancel sid)"


text \<open>\<open>constructEventFromPayload(payload, signature)\<close>: the raw body first, the
  Stripe-Signature header second; logs and rethrows.\<close>

definition constructEventFromPayload :: "env \<Rightarrow> string \<Rightarrow> string \<Rightarrow> exn + event" where
  "constructEventFromPayload e payload sig = constructEvent e payload sig (webhookSecret e)"

subsection \<open>The webhook's event handlers\<close>

text \<open>Each handler returns nothing and catches whatever its body throws (it logs the
  error), so its whole effect is on the User collection. The analytics call that ends a
  handler comes after the write and inside the same \<open>try\<close>: it cannot change the
  collection, and is left out.\<close>

definition addPremium :: "string list \<Rightarrow> string list" where
  "addPremium rs = (if ''premium'' \<in> set rs then rs else rs @ [''premium''])"

definition removePremium :: "string list \<Rightarrow> string list" where
  "removePremium rs = filter (\<lambda>role. role \<noteq> ''premium'') rs"

text \<open>\<open>handleCheckoutSessionCompleted(session)\<close>. An empty \<open>items.data\<close> makes
  \<open>items.data[0].price\<close> throw a TypeError, which the handler catches.\<close>

definition handleCheckoutSessionCompleted :: "env \<Rightarrow> stripe_object \<Rightarrow> user list \<Rightarrow> user list" where
  "handleCheckoutSessionCompleted e session db =
     (case obj_subscription session of
        None \<Rightarrow> db
      | Some sid \<Rightarrow>
          if sid = [] then db
          else
            (case getSubscription e sid of
               Inl err \<Rightarrow> db
             | Inr sub \<Rightarrow>
                 (case findOne (byCustomerId (obj_customer session)) db of
                    None \<Rightarrow> db
                  | Some u \<Rightarrow>
                      (case price_ids sub of
                         [] \<Rightarrow> db
                       | p # ps \<Rightarrow>
                           (case save e
                                  (u\<lparr>subscription := Some
                                       \<lparr>subscriptionId = Some sid,
                                        planId = Some p,
                                        status = Some (sub_status sub),
                                        currentPeriodEnd = Some (current_period_end sub * 1000),
                                        cancelAtPeriodEnd = cancel_at_period_end sub\<rparr>,
                                     roles := addPremium (roles u)\<rparr>) db of
                              Inl err \<Rightarrow> db
                            | Inr db' \<Rightarrow> db')))))"

text \<open>The assignments of \<open>handleSubscriptionUpdated\<close> to the loaded document, for the
  subscription object \<open>sub\<close> whose first item has price \<open>p\<close>.\<close>

definition applySubscription :: "stripe_subscription \<Rightarrow> string \<Rightarrow> subscription_doc \<Rightarrow> user \<Rightarrow> user" where
  "applySubscription sub p s u =
     u\<lparr>subscription := Some
          (s\<lparr>status := Some (sub_status sub),
             currentPeriodEnd := Some (current_period_end sub * 1000),
             cancelAtPeriodEnd := cancel_at_period_end sub,
             planId := (if Some p \<noteq> planId s then Some p else planId s)\<rparr>),
        roles :=
          (if sub_status sub = ''active'' then addPremium (roles u)
           else if sub_status sub \<in> set [''canceled'', ''unpaid'', ''past_due'']
                then removePremium (roles u)
                else roles u)\<rparr>"

text \<open>\<open>handleSubscriptionUpdated(subscription)\<close>. On an object that is not a
  subscription, or one with no item, reading \<open>items.data[0].price\<close> throws a TypeError
  before the write; the handler catches it.\<close>

definition handleSubscriptionUpdated :: "env \<Rightarrow> stripe_object \<Rightarrow> user list \<Rightarrow> user list" where
  "handleSubscriptionUpdated e obj db =
     (case findOne (bySubscriptionId (obj_id obj)) db of
        None \<Rightarrow> db
      | Some u \<Rightarrow>
          (case subscription u of
             None \<Rightarrow> db
           | Some s \<Rightarrow>
               (case obj of
                  Subscription sub \<Rightarrow>
                    (case price_ids sub of
                       [] \<Rightarrow> db
                     | p # ps \<Rightarrow>
                         (case save e (applySubscription sub p s u) db of
                            Inl err \<Rightarrow> db
                          | Inr db' \<Rightarrow> db'))
                | Session c \<Rightarrow> db
                | Invoice i \<Rightarrow> db)))"

text \<open>\<open>handleSubscriptionDeleted(subscription)\<close>.\<close>

definition handleSubscriptionDeleted :: "env \<Rightarrow> stripe_object \<Rightarrow> user list \<Rightarrow> user list" where
  "handleSubscriptionDeleted e obj db =
     (case findOne (bySubscriptionId (obj_id obj)) db of
        None \<Rightarrow> db
      | Some u \<Rightarrow>
          (case subscription u of
             None \<Rightarrow> db
           | Some s \<Rightarrow>
               (case save e
                      (u\<lparr>subscription := Some (s\<lparr>status := Some ''canceled''\<rparr>),
                         roles := removePremium (roles u)\<rparr>) db of
                  Inl err \<Rightarrow> db
                | Inr db' \<Rightarrow> db')))"

text \<open>\<open>handleInvoicePaymentSucceeded(invoice)\<close> and
  \<open>handleInvoicePaymentFailed(invoice)\<close> look the user up and track the payment; neither
  writes.\<close>

definition handleInvoicePaymentSucceeded :: "env \<Rightarrow> stripe_object \<Rightarrow> user list \<Rightarrow> user list" where
  "handleInvoicePaymentSucceeded e invoice db =
     (case obj_subscription invoice of
        None \<Rightarrow> db
      | Some sid \<Rightarrow>
          if sid = [] then db
          else (case findOne (bySubscriptionId sid) db of None \<Rightarrow> db | Some u \<Rightarrow> db))"

definition handleInvoicePaymentFailed :: "env \<Rightarrow> stripe_object \<Rightarrow> user list \<Rightarrow> user list" where
  "handleInvoicePaymentFailed e invoice db =
     (case obj_subscription invoice of
        None \<Rightarrow> db
      | Some sid \<Rightarrow>
          if sid = [] then db
          else (case findOne (bySubscriptionId sid) db of None \<Rightarrow> db | Some u \<Rightarrow> db))"

subsection \<open>The webhook endpoint\<close>

record webhook_request =
  stripe_signature :: "string option"
  body :: string

record subscription_view =
  view_planId :: "string option"
  view_status :: "string option"
  view_currentPeriodEnd :: "int option"
  view_cancelAtPeriodEnd :: bool

datatype json_body =
    Received
  | SubscriptionInfo "subscription_view option" bool
  | Canceled string "string option" bool
  | Reactivated string "string option" bool
  | PlanUpdated string string string int

type_synonym response = "nat \<times> json_body"

text \<open>The \<open>switch (event.type)\<close> of \<open>handleStripeWebhook\<close>; its default case logs the
  type.\<close>

definition dispatchEvent :: "env \<Rightarrow> event \<Rightarrow> user list \<Rightarrow> user list" where
  "dispatchEvent e ev db =
     (if ev_type ev = ''checkout.session.completed''
        then handleCheckoutSessionCompleted e (data_object ev) db
      else if ev_type ev = ''customer.subscription.created''
            \<or> ev_type ev = ''customer.subscription.updated''
        then handleSubscriptionUpdated e (data_object ev) db
      else if ev_type ev = ''customer.subscription.deleted''
        then handleSubscriptionDeleted e (data_object ev) db
      else if ev_type ev = ''invoice.payment_succeeded''
        then handleInvoicePaymentSucceeded e (data_object ev) db
      else if ev_type ev = ''invoice.payment_failed''
        then handleInvoicePaymentFailed e (data_object ev) db
      else db)"

text \<open>\<open>handleStripeWebhook(req, res)\<close>: the error it throws (the error middleware answers
  with its status code) or the response it sends, and the collection afterwards. The call
  passes the header where \<open>constructEventFromPayload\<close> takes the payload, and the body
  where it takes the signature, as the source does.\<close>

definition handleStripeWebhook :: "env \<Rightarrow> webhook_request \<Rightarrow> user list \<Rightarrow> (exn + response) \<times> user list" where
  "handleStripeWebhook e req db =
     (case stripe_signature req of
        None \<Rightarrow> (Inl (ApiError BAD_REQUEST ''Missing Stripe signature''), db)
      | Some sg \<Rightarrow>
          if sg = [] then (Inl (ApiError BAD_REQUEST ''Missing Stripe signature''), db)
          else
            (case constructEventFromPayload e sg (body req) of
               Inl err \<Rightarrow> (Inl (ApiError BAD_REQUEST (''Webhook error: '' @ message err)), db)
             | Inr ev \<Rightarrow> (Inr (OK, Received), dispatchEvent e ev db)))"

subsection \<open>The user's endpoints\<close>


text \<open>The endpoints that ask the provider for a change also return the requests they
  sent, oldest first.\<close>

record world =
  users :: "user list"
  requests :: "provider_request list"

definition send :: "env \<Rightarrow> provider_request \<Rightarrow> world \<Rightarrow> (exn + stripe_subscription) \<times> world" where
  "send e rq w = (provider e rq, w\<lparr>requests := requests w @ [rq]\<rparr>)"

text \<open>The wrappers \<open>cancelSubscription\<close> and \<open>updateSubscription\<close> of config/stripe.js.\<close>

definition stripe_cancelSubscription :: "env \<Rightarrow> string \<Rightarrow> bool \<Rightarrow> world \<Rightarrow> (exn + stripe_subscription) \<times> world" where
  "stripe_cancelSubscription e sid atPeriodEnd w = send e (cancelRequest sid atPeriodEnd) w"


text \<open>\<open>cancelSubscription(req, res)\<close>, with \<open>req.body.cancelImmediately\<close>.\<close>

definition cancelSubscription :: "env \<Rightarrow> string \<Rightarrow> bool \<Rightarrow> world \<Rightarrow> (exn + response) \<times> world" where
  "cancelSubscription e userId cancelImmediately w =
     (case findById userId (users w) of
        None \<Rightarrow> (Inl (ApiError NOT_FOUND ''User not found''), w)
      | Some u \<Rightarrow>
          (case subscription u of
             None \<Rightarrow> (Inl (ApiError BAD_REQUEST ''No active subscription found''), w)
           | Some s \<Rightarrow>
               (case subscriptionId s of
                  None \<Rightarrow> (Inl (ApiError BAD_REQUEST ''No active subscription found''), w)
                | Some sid \<Rightarrow>
                    if sid = [] then (Inl (ApiError BAD_REQUEST ''No active subscription found''), w)
                    else
                      (case stripe_cancelSubscription e sid (\<not> cancelImmediately) w of
                         (Inl err, w1) \<Rightarrow> (Inl err, w1)
                       | (Inr answer, w1) \<Rightarrow>
                           (case save e
                                  (u\<lparr>subscription := Some
                                       (s\<lparr>status := Some (if cancelImmediately then ''canceled'' else ''active''),
                                          cancelAtPeriodEnd := \<not> cancelImmediately\<rparr>)\<rparr>)
                                  (users w1) of
                              Inl err \<Rightarrow> (Inl err, w1)
                            | Inr db' \<Rightarrow>
                                (case trackFails e ''subscription_canceled'' of
                                   Some err \<Rightarrow> (Inl err, w1\<lparr>users := db'\<rparr>)
                                 | None \<Rightarrow>
                                     (Inr (OK, Canceled
                                             (if cancelImmediately
                                              then ''Subscription canceled immediately''
                                              else ''Subscription will be canceled at the end of the billing period'')
                                             (Some (if cancelImmediately then ''canceled'' else ''active''))
                                             (\<not> cancelImmediately)),
                                      w1\<lparr>users := db'\<rparr>)))))))"

text \<open>\<open>reactivateSubscription(req, res)\<close>. Its provider call is
  \<open>stripe.subscriptions.update(id, {})\<close>, where \<open>stripe\<close> is the module config/stripe.js:
  reading \<open>update\<close> of a property the module does not export throws a TypeError.\<close>

definition reactivateSubscription :: "env \<Rightarrow> string \<Rightarrow> world \<Rightarrow> (exn + response) \<times> world" where
  "reactivateSubscription e userId w =
     (case findById userId (users w) of
        None \<Rightarrow> (Inl (ApiError NOT_FOUND ''User not found''), w)
      | Some u \<Rightarrow>
          (case subscription u of
             None \<Rightarrow> (Inl (ApiError BAD_REQUEST ''No subscription found to reactivate''), w)
           | Some s \<Rightarrow>
               (case subscriptionId s of
                  None \<Rightarrow> (Inl (ApiError BAD_REQUEST ''No subscription found to reactivate''), w)
                | Some sid \<Rightarrow>
                    if sid = [] then (Inl (ApiError BAD_REQUEST ''No subscription found to reactivate''), w)
                    else if cancelAtPeriodEnd s then
                      (if ''subscriptions'' \<in> set stripe_exports then
                         (case send e (SubscriptionsUpdate sid None None) w of
                            (Inl err, w1) \<Rightarrow> (Inl err, w1)
                          | (Inr answer, w1) \<Rightarrow>
                              (case save e (u\<lparr>subscription := Some (s\<lparr>cancelAtPeriodEnd := False\<rparr>)\<rparr>)
                                     (users w1) of
                                 Inl err \<Rightarrow> (Inl err, w1)
                               | Inr db' \<Rightarrow>
                                   (case trackFails e ''subscription_reactivated'' of
                                      Some err \<Rightarrow> (Inl err, w1\<lparr>users := db'\<rparr>)
                                    | None \<Rightarrow>
                                        (Inr (OK, Reactivated ''Subscription successfully reactivated''
                                                (status s) False),
                                         w1\<lparr>users := db'\<rparr>))))
                       else (Inl (TypeError ''Cannot read properties of undefined (reading 'update')''), w))
                    else (Inl (ApiError BAD_REQUEST ''Subscription is not scheduled for cancellation''), w))))"


subsection \<open>Deliveries\<close>

text \<open>What one delivery of a webhook request leaves in the User collection.\<close>

definition deliver :: "env \<Rightarrow> webhook_request \<Rightarrow> user list \<Rightarrow> user list" where
  "deliver e req db = snd (handleStripeWebhook e req db)"

subsection \<open>Sample data\<close>

text \<open>A user on a trial, the provider's view of the subscription in a given state, and
  two events on it: the older one reports it active, the newer one canceled.\<close>

definition example_subscription :: subscription_doc where
  "example_subscription =
     \<lparr>subscriptionId = Some ''sub_1'', planId = Some ''price_monthly'',
      status = Some ''trialing'', currentPeriodEnd = Some 1000, cancelAtPeriodEnd = False\<rparr>"

definition example_user :: user where
  "example_user =
     \<lparr>user_id = ''u1'', stripeCustomerId = Some ''cus_1'',
      subscription = Some example_subscription, roles = []\<rparr>"

definition provider_state :: "string \<Rightarrow> int \<Rightarrow> stripe_subscription" where
  "provider_state st period_end =
     \<lparr>sub_id = ''sub_1'', sub_customer = ''cus_1'', sub_status = st,
      current_period_end = period_end, cancel_at_period_end = False,
      price_ids = [''price_monthly'']\<rparr>"

definition older_event :: event where
  "older_event =
     \<lparr>ev_id = ''evt_1'', ev_type = ''customer.subscription.updated'', created = 100,
      data_object = Subscription (provider_state ''active'' 5)\<rparr>"

definition newer_event :: event where
  "newer_event =
     \<lparr>ev_id = ''evt_2'', ev_type = ''customer.subscription.updated'', created = 200,
      data_object = Subscription (provider_state ''canceled'' 7)\<rparr>"



text \<open>A provider library that accepts one delivery: the payload \<open>evt_1\<close> signed with the
  header \<open>t=1,v1=5257a8\<close>.\<close>

definition signing_library :: "string \<Rightarrow> string \<Rightarrow> string \<Rightarrow> exn + event" where
  "signing_library payload header secret =
     (if payload = ''evt_1'' \<and> header = ''t=1,v1=5257a8'' \<and> secret = ''whsec_test_secret''
      then Inr older_event
      else Inl (StripeError ''No signatures found matching the expected signature for payload''))"

definition example_env :: env where
  "example_env =
     \<lparr>webhookSecret = ''whsec_test_secret'',
      monthlyPlanId = Some ''price_monthly'',
      yearlyPlanId = Some ''price_yearly'',
      constructEvent = signing_library,
      retrieve = (\<lambda>sid. Inr (provider_state ''active'' 5)),
      provider = (\<lambda>rq. Inr (provider_state ''active'' 5)),
      saveFails = (\<lambda>u. None),
      trackFails = (\<lambda>name. None)\<rparr>"








text \<open>A user whose active subscription is scheduled to end with the period.\<close>

definition scheduled_user :: user where
  "scheduled_user =
     example_user\<lparr>subscription :=
       Some (example_subscription\<lparr>status := Some ''active'', cancelAtPeriodEnd := True\<rparr>)\<rparr>"

subsection \<open>The record invariant\<close>




section \<open>Properties\<close>

subsection \<open>Reading back what was written\<close>

lemma find_write_back:
  "find P db = Some u \<Longrightarrow> P u' \<Longrightarrow> user_id u' = user_id u \<Longrightarrow>
   find P (write_back u' db) = Some u'"
  unfolding write_back_def by (induction db) (auto split: if_splits)

lemma write_back_twice: "write_back u (write_back u db) = write_back u db"
  unfolding write_back_def by (induction db) auto

lemma addPremium_idem: "addPremium (addPremium rs) = addPremium rs"
  by (simp add: addPremium_def)

lemma removePremium_idem: "removePremium (removePremium rs) = removePremium rs"
  by (simp add: removePremium_def)

lemma find_Some_holds: "find P db = Some u \<Longrightarrow> P u"
  by (induction db) (auto split: if_splits)

lemma applySubscription_idem:
  "applySubscription sub p
     (s\<lparr>status := Some (sub_status sub),
        currentPeriodEnd := Some (current_period_end sub * 1000),
        cancelAtPeriodEnd := cancel_at_period_end sub,
        planId := (if Some p \<noteq> planId s then Some p else planId s)\<rparr>)
     (applySubscription sub p s u) = applySubscription sub p s u"
  by (auto simp: applySubscription_def addPremium_idem removePremium_idem)

lemma applySubscription_sub:
  "subscription (applySubscription sub p s u) =
     Some (s\<lparr>status := Some (sub_status sub),
        currentPeriodEnd := Some (current_period_end sub * 1000),
        cancelAtPeriodEnd := cancel_at_period_end sub,
        planId := (if Some p \<noteq> planId s then Some p else planId s)\<rparr>)"
  by (simp add: applySubscription_def)

lemma applySubscription_id: "user_id (applySubscription sub p s u) = user_id u"
  by (simp add: applySubscription_def)

lemma handleSubscriptionUpdated_idem:
  "handleSubscriptionUpdated e obj (handleSubscriptionUpdated e obj db) = handleSubscriptionUpdated e obj db"
proof (cases "find (bySubscriptionId (obj_id obj)) db")
  case None
  then show ?thesis by (simp add: handleSubscriptionUpdated_def findOne_def)
next
  case (Some u)
  then have Pu: "bySubscriptionId (obj_id obj) u" by (rule find_Some_holds)
  then obtain s where s: "subscription u = Some s" and sid: "subscriptionId s = Some (obj_id obj)"
    by (auto simp: bySubscriptionId_def split: option.splits)
  show ?thesis
  proof (cases obj)
    case (Subscription sub)
    show ?thesis
    proof (cases "price_ids sub")
      case Nil
      with Some s Subscription show ?thesis
        by (simp add: handleSubscriptionUpdated_def findOne_def)
    next
      case (Cons p ps)
      let ?u' = "applySubscription sub p s u"
      show ?thesis
      proof (cases "saveFails e ?u'")
        case (Some err)
        with \<open>find _ db = Some u\<close> s Subscription Cons show ?thesis
          by (simp add: handleSubscriptionUpdated_def findOne_def save_def)
      next
        case None
        have step: "handleSubscriptionUpdated e obj db = write_back ?u' db"
          using \<open>find _ db = Some u\<close> s Subscription Cons None
          by (simp add: handleSubscriptionUpdated_def findOne_def save_def)
        have P': "bySubscriptionId (obj_id obj) ?u'"
          using sid by (simp add: bySubscriptionId_def applySubscription_sub)
        have found: "find (bySubscriptionId (obj_id obj)) (write_back ?u' db) = Some ?u'"
          using \<open>find _ db = Some u\<close> P' by (rule find_write_back) (simp add: applySubscription_id)
        have "handleSubscriptionUpdated e obj (write_back ?u' db) = write_back ?u' (write_back ?u' db)"
          using found Subscription Cons None
          by (simp add: handleSubscriptionUpdated_def findOne_def save_def
                applySubscription_sub applySubscription_idem)
        then show ?thesis by (simp add: step write_back_twice)
      qed
    qed
  next
    case (Session c)
    with Some s show ?thesis by (simp add: handleSubscriptionUpdated_def findOne_def)
  next
    case (Invoice i)
    with Some s show ?thesis by (simp add: handleSubscriptionUpdated_def findOne_def)
  qed
qed

lemma handleSubscriptionDeleted_idem:
  "handleSubscriptionDeleted e obj (handleSubscriptionDeleted e obj db) = handleSubscriptionDeleted e obj db"
proof (cases "find (bySubscriptionId (obj_id obj)) db")
  case None
  then show ?thesis by (simp add: handleSubscriptionDeleted_def findOne_def)
next
  case (Some u)
  then have "bySubscriptionId (obj_id obj) u" by (rule find_Some_holds)
  then obtain s where s: "subscription u = Some s" and sid: "subscriptionId s = Some (obj_id obj)"
    by (auto simp: bySubscriptionId_def split: option.splits)
  let ?u' = "u\<lparr>subscription := Some (s\<lparr>status := Some ''canceled''\<rparr>), roles := removePremium (roles u)\<rparr>"
  show ?thesis
  proof (cases "saveFails e ?u'")
    case (Some err)
    with \<open>find _ db = Some u\<close> s show ?thesis
      by (simp add: handleSubscriptionDeleted_def findOne_def save_def)
  next
    case None
    have step: "handleSubscriptionDeleted e obj db = write_back ?u' db"
      using \<open>find _ db = Some u\<close> s None
      by (simp add: handleSubscriptionDeleted_def findOne_def save_def)
    have found: "find (bySubscriptionId (obj_id obj)) (write_back ?u' db) = Some ?u'"
      using \<open>find _ db = Some u\<close> by (rule find_write_back) (simp_all add: bySubscriptionId_def sid)
    have "handleSubscriptionDeleted e obj (write_back ?u' db) = write_back ?u' (write_back ?u' db)"
      using found None
      by (simp add: handleSubscriptionDeleted_def findOne_def save_def removePremium_idem)
    then show ?thesis by (simp add: step write_back_twice)
  qed
qed

lemma handleCheckoutSessionCompleted_idem:
  "handleCheckoutSessionCompleted e obj (handleCheckoutSessionCompleted e obj db)
     = handleCheckoutSessionCompleted e obj db"
proof (cases "obj_subscription obj")
  case None
  then show ?thesis by (simp add: handleCheckoutSessionCompleted_def)
next
  case (Some sid)
  note sid = Some
  show ?thesis
  proof (cases "sid = []")
    case True
    with sid show ?thesis by (simp add: handleCheckoutSessionCompleted_def)
  next
    case False
    note nonempty = False
    show ?thesis
    proof (cases "getSubscription e sid")
      case (Inl err)
      with sid show ?thesis by (simp add: handleCheckoutSessionCompleted_def)
    next
      case (Inr sub)
      note looked = Inr
      show ?thesis
      proof (cases "find (byCustomerId (obj_customer obj)) db")
        case None
        with sid looked show ?thesis by (simp add: handleCheckoutSessionCompleted_def findOne_def)
      next
        case (Some u)
        note found = Some
        then have cust: "byCustomerId (obj_customer obj) u" by (rule find_Some_holds)
        show ?thesis
        proof (cases "price_ids sub")
          case Nil
          with sid looked found show ?thesis
            by (simp add: handleCheckoutSessionCompleted_def findOne_def)
        next
          case (Cons p ps)
          let ?doc = "\<lparr>subscriptionId = Some sid, planId = Some p, status = Some (sub_status sub),
                        currentPeriodEnd = Some (current_period_end sub * 1000),
                        cancelAtPeriodEnd = cancel_at_period_end sub\<rparr>"
          let ?u' = "u\<lparr>subscription := Some ?doc, roles := addPremium (roles u)\<rparr>"
          show ?thesis
          proof (cases "saveFails e ?u'")
            case (Some err)
            with sid nonempty looked found Cons show ?thesis
              by (simp add: handleCheckoutSessionCompleted_def findOne_def save_def)
          next
            case None
            have step: "handleCheckoutSessionCompleted e obj db = write_back ?u' db"
              using sid nonempty looked found Cons None
              by (simp add: handleCheckoutSessionCompleted_def findOne_def save_def)
            have found': "find (byCustomerId (obj_customer obj)) (write_back ?u' db) = Some ?u'"
              using found by (rule find_write_back) (use cust in \<open>simp_all add: byCustomerId_def\<close>)
            have "handleCheckoutSessionCompleted e obj (write_back ?u' db)
                    = write_back ?u' (write_back ?u' db)"
              using sid nonempty looked found' Cons None
              by (simp add: handleCheckoutSessionCompleted_def findOne_def save_def addPremium_idem)
            then show ?thesis by (simp add: step write_back_twice)
          qed
        qed
      qed
    qed
  qed
qed

lemma handleInvoicePaymentSucceeded_unchanged: "handleInvoicePaymentSucceeded e obj db = db"
  by (simp add: handleInvoicePaymentSucceeded_def split: option.splits)

lemma handleInvoicePaymentFailed_unchanged: "handleInvoicePaymentFailed e obj db = db"
  by (simp add: handleInvoicePaymentFailed_def split: option.splits)

lemma dispatchEvent_idem: "dispatchEvent e ev (dispatchEvent e ev db) = dispatchEvent e ev db"
  by (simp add: dispatchEvent_def handleCheckoutSessionCompleted_idem
        handleSubscriptionUpdated_idem handleSubscriptionDeleted_idem
        handleInvoicePaymentSucceeded_unchanged handleInvoicePaymentFailed_unchanged)

lemma deliver_twice: "deliver e req (deliver e req db) = deliver e req db"
  by (simp add: deliver_def handleStripeWebhook_def dispatchEvent_idem
        split: option.splits sum.splits)

subsection \<open>Duplicate deliveries\<close>

lemma repeated_idempotent:
  assumes "\<And>x. f (f x) = f x"
  shows "(f ^^ Suc n) x = f x"
proof (induction n)
  case 0
  show ?case by simp
next
  case (Suc n)
  have "(f ^^ Suc (Suc n)) x = f ((f ^^ Suc n) x)" by simp
  also have "\<dots> = f (f x)" by (simp only: Suc.IH)
  also have "\<dots> = f x" by (rule assms)
  finally show ?case .
qed

text \<open>Claim C1. Delivering the same webhook request any number of times in a row leaves
  the User collection as one delivery leaves it, and so does handling the same event any
  number of times: the applications after the first change nothing.\<close>

theorem duplicate_delivery_idempotent:
  "(deliver e req ^^ Suc n) db = deliver e req db
   \<and> (dispatchEvent e ev ^^ Suc n) db = dispatchEvent e ev db"
  by (simp only: repeated_idempotent [of "deliver e req", OF deliver_twice]
        repeated_idempotent [of "dispatchEvent e ev", OF dispatchEvent_idem] simp_thms)

subsection \<open>Stale events and delivery order\<close>

lemmas example_defs = example_subscription_def example_user_def provider_state_def
  older_event_def newer_event_def example_env_def

text \<open>Claim C2, counterexample. After the newer event (time 200) is applied, the older
  one (time 100) still changes the record: the status goes back from canceled to
  active.\<close>

theorem stale_event_regresses_record:
  "created older_event \<le> created newer_event
   \<and> dispatchEvent example_env older_event (dispatchEvent example_env newer_event [example_user])
       \<noteq> dispatchEvent example_env newer_event [example_user]"
  by (simp add: example_defs dispatchEvent_def handleSubscriptionUpdated_def findOne_def
      bySubscriptionId_def save_def write_back_def applySubscription_def removePremium_def addPremium_def)

text \<open>Claim C3, counterexample. The two delivery orders of the older and the newer
  event leave different records.\<close>

theorem delivery_order_matters:
  "created older_event < created newer_event
   \<and> dispatchEvent example_env newer_event (dispatchEvent example_env older_event [example_user])
       \<noteq> dispatchEvent example_env older_event (dispatchEvent example_env newer_event [example_user])"
  by (simp add: example_defs dispatchEvent_def handleSubscriptionUpdated_def findOne_def
      bySubscriptionId_def save_def write_back_def applySubscription_def removePremium_def addPremium_def)

lemma handleSubscriptionUpdated_writes:
  assumes found: "find (bySubscriptionId (sub_id sub)) db = Some u"
    and s: "subscription u = Some s"
    and items: "price_ids sub = p # ps"
    and ok: "saveFails e (applySubscription sub p s u) = None"
  shows "handleSubscriptionUpdated e (Subscription sub) db = write_back (applySubscription sub p s u) db"
  using assms by (simp add: handleSubscriptionUpdated_def findOne_def save_def)

lemma applySubscription_fields:
  assumes "subscriptionId s = Some sid"
  shows "subscription (applySubscription sub p s u) =
     Some \<lparr>subscriptionId = Some sid, planId = Some p, status = Some (sub_status sub),
           currentPeriodEnd = Some (current_period_end sub * 1000),
           cancelAtPeriodEnd = cancel_at_period_end sub\<rparr>"
  using assms by (cases s) (auto simp: applySubscription_def)

text \<open>Claim C2, as amended. The controller keeps no time of the last applied event and
  reads no event time: a subscription created or updated event for a known subscription
  id, carrying an item, over a store that accepts the write, overwrites the record's
  status, period end, cancellation flag and plan with the event's values, whatever the
  event's time \<open>t\<close>.\<close>

theorem subscription_event_applied_whatever_its_time:
  assumes ty: "ev_type ev = ''customer.subscription.created''
               \<or> ev_type ev = ''customer.subscription.updated''"
    and obj: "data_object ev = Subscription sub"
    and items: "price_ids sub = p # ps"
    and found: "findOne (bySubscriptionId (sub_id sub)) db = Some u"
    and ok: "\<And>v. saveFails e v = None"
  shows "\<exists>u'. findOne (bySubscriptionId (sub_id sub)) (dispatchEvent e (ev\<lparr>created := t\<rparr>) db) = Some u'
           \<and> subscription u' =
               Some \<lparr>subscriptionId = Some (sub_id sub), planId = Some p,
                     status = Some (sub_status sub),
                     currentPeriodEnd = Some (current_period_end sub * 1000),
                     cancelAtPeriodEnd = cancel_at_period_end sub\<rparr>"
proof -
  from found have f: "find (bySubscriptionId (sub_id sub)) db = Some u"
    by (simp add: findOne_def)
  then have "bySubscriptionId (sub_id sub) u" by (rule find_Some_holds)
  then obtain s where s: "subscription u = Some s" and sid: "subscriptionId s = Some (sub_id sub)"
    by (auto simp: bySubscriptionId_def split: option.splits)
  let ?u' = "applySubscription sub p s u"
  have fields: "subscription ?u' =
     Some \<lparr>subscriptionId = Some (sub_id sub), planId = Some p, status = Some (sub_status sub),
           currentPeriodEnd = Some (current_period_end sub * 1000),
           cancelAtPeriodEnd = cancel_at_period_end sub\<rparr>"
    using sid by (rule applySubscription_fields)
  have "dispatchEvent e (ev\<lparr>created := t\<rparr>) db = handleSubscriptionUpdated e (Subscription sub) db"
    using ty obj by (auto simp: dispatchEvent_def)
  also have "\<dots> = write_back ?u' db"
    using f s items ok by (rule handleSubscriptionUpdated_writes)
  finally have eq: "dispatchEvent e (ev\<lparr>created := t\<rparr>) db = write_back ?u' db" .
  have "find (bySubscriptionId (sub_id sub)) (write_back ?u' db) = Some ?u'"
    using f by (rule find_write_back) (simp_all add: bySubscriptionId_def fields applySubscription_id)
  with eq fields show ?thesis by (auto simp: findOne_def)
qed

text \<open>Witness for C2: the older event, its time set to 0, applied to the sample user.\<close>

theorem subscription_event_applied_whatever_its_time_witness:
  "(ev_type older_event = ''customer.subscription.created''
      \<or> ev_type older_event = ''customer.subscription.updated'')
   \<and> findOne (bySubscriptionId ''sub_1'') [example_user] = Some example_user
   \<and> (\<forall>v. saveFails example_env v = None)
   \<and> (\<exists>u'. findOne (bySubscriptionId ''sub_1'')
               (dispatchEvent example_env (older_event\<lparr>created := 0\<rparr>) [example_user]) = Some u'
           \<and> subscription u' =
               Some \<lparr>subscriptionId = Some ''sub_1'', planId = Some ''price_monthly'',
                     status = Some ''active'', currentPeriodEnd = Some 5000,
                     cancelAtPeriodEnd = False\<rparr>)"
proof -
  have ty: "ev_type older_event = ''customer.subscription.created''
      \<or> ev_type older_event = ''customer.subscription.updated''"
    by (simp add: older_event_def)
  have obj: "data_object older_event = Subscription (provider_state ''active'' 5)"
    by (simp add: older_event_def)
  have items: "price_ids (provider_state ''active'' 5) = ''price_monthly'' # []"
    by (simp add: provider_state_def)
  have found: "findOne (bySubscriptionId (sub_id (provider_state ''active'' 5))) [example_user]
                 = Some example_user"
    by (simp add: provider_state_def example_user_def example_subscription_def findOne_def
          bySubscriptionId_def)
  have ok: "saveFails example_env v = None" for v
    by (simp add: example_env_def)
  from subscription_event_applied_whatever_its_time [OF ty obj items found ok, of 0]
  show ?thesis using ty found ok by (simp add: provider_state_def)
qed

lemma write_back_over:
  "user_id a = user_id b \<Longrightarrow> write_back b (write_back a db) = write_back b db"
  unfolding write_back_def by (induction db) auto

lemma subscriptions_write_back:
  "user_id a = user_id b \<Longrightarrow> subscription a = subscription b \<Longrightarrow>
   map subscription (write_back a db) = map subscription (write_back b db)"
  unfolding write_back_def by (induction db) auto

lemma applySubscription_overwrites:
  "subscription (applySubscription sub p
       (s\<lparr>status := st, currentPeriodEnd := cpe, cancelAtPeriodEnd := c, planId := pl\<rparr>) u')
   = subscription (applySubscription sub p s u)"
  by (simp add: applySubscription_def)

lemma handleSubscriptionUpdated_last_wins:
  assumes same: "obj_id a = sub_id sb"
    and items: "price_ids sb = p # ps"
    and ok: "\<And>v. saveFails e v = None"
  shows "map subscription (handleSubscriptionUpdated e (Subscription sb) (handleSubscriptionUpdated e a db))
       = map subscription (handleSubscriptionUpdated e (Subscription sb) db)"
proof (cases "find (bySubscriptionId (sub_id sb)) db")
  case None
  then have "handleSubscriptionUpdated e a db = db"
    using same by (simp add: handleSubscriptionUpdated_def findOne_def)
  then show ?thesis by simp
next
  case (Some u)
  then have "bySubscriptionId (sub_id sb) u" by (rule find_Some_holds)
  then obtain s where s: "subscription u = Some s" and sid: "subscriptionId s = Some (sub_id sb)"
    by (auto simp: bySubscriptionId_def split: option.splits)
  have b_alone: "handleSubscriptionUpdated e (Subscription sb) db = write_back (applySubscription sb p s u) db"
    using Some s items ok by (rule handleSubscriptionUpdated_writes)
  show ?thesis
  proof (cases "handleSubscriptionUpdated e a db = db")
    case True
    then show ?thesis by simp
  next
    case False
    then obtain sa pa where a: "a = Subscription sa" 
      and a_step: "handleSubscriptionUpdated e a db = write_back (applySubscription sa pa s u) db"
      using Some s same ok
      by (auto simp: handleSubscriptionUpdated_def findOne_def save_def
            split: stripe_object.splits list.splits)
    let ?ua = "applySubscription sa pa s u"
    have found_a: "find (bySubscriptionId (sub_id sb)) (write_back ?ua db) = Some ?ua"
      using Some by (rule find_write_back)
        (simp_all add: bySubscriptionId_def applySubscription_sub applySubscription_id sid)
    have sub_a: "subscription ?ua = Some (s\<lparr>status := Some (sub_status sa),
        currentPeriodEnd := Some (current_period_end sa * 1000),
        cancelAtPeriodEnd := cancel_at_period_end sa,
        planId := (if Some pa \<noteq> planId s then Some pa else planId s)\<rparr>)"
      by (rule applySubscription_sub)
    let ?sa = "s\<lparr>status := Some (sub_status sa),
        currentPeriodEnd := Some (current_period_end sa * 1000),
        cancelAtPeriodEnd := cancel_at_period_end sa,
        planId := (if Some pa \<noteq> planId s then Some pa else planId s)\<rparr>"
    have "handleSubscriptionUpdated e (Subscription sb) (write_back ?ua db)
            = write_back (applySubscription sb p ?sa ?ua) (write_back ?ua db)"
      using found_a sub_a items ok by (rule handleSubscriptionUpdated_writes)
    also have "\<dots> = write_back (applySubscription sb p ?sa ?ua) db"
      by (rule write_back_over) (simp add: applySubscription_id)
    finally have "map subscription (handleSubscriptionUpdated e (Subscription sb) (write_back ?ua db))
        = map subscription (write_back (applySubscription sb p ?sa ?ua) db)" by simp
    also have "\<dots> = map subscription (write_back (applySubscription sb p s u) db)"
      by (rule subscriptions_write_back)
         (simp_all add: applySubscription_id applySubscription_overwrites)
    finally show ?thesis by (simp add: a_step b_alone)
  qed
qed

text \<open>Claim C3, as amended. Of two subscription created or updated events on the same
  subscription id, the one delivered last decides the subscription records: delivering
  \<open>a\<close> then \<open>b\<close> leaves the records that \<open>b\<close> alone leaves, whatever the events'
  times (the store accepts the writes, \<open>b\<close> carries an item).\<close>

theorem last_delivered_event_wins:
  assumes "ev_type a = ''customer.subscription.created'' \<or> ev_type a = ''customer.subscription.updated''"
    and "ev_type b = ''customer.subscription.created'' \<or> ev_type b = ''customer.subscription.updated''"
    and "obj_id (data_object a) = sub_id sb"
    and "data_object b = Subscription sb"
    and "price_ids sb = p # ps"
    and "\<And>v. saveFails e v = None"
  shows "map subscription (dispatchEvent e b (dispatchEvent e a db))
       = map subscription (dispatchEvent e b db)"
proof -
  have a: "dispatchEvent e a db = handleSubscriptionUpdated e (data_object a) db"
    using assms(1) by (auto simp: dispatchEvent_def)
  have b: "dispatchEvent e b d = handleSubscriptionUpdated e (Subscription sb) d" for d
    using assms(2,4) by (auto simp: dispatchEvent_def)
  show ?thesis
    unfolding a b using assms(3,5,6) by (rule handleSubscriptionUpdated_last_wins)
qed

text \<open>Witness for C3: the older event, then the newer one.\<close>

theorem last_delivered_event_wins_witness:
  "obj_id (data_object older_event) = sub_id (provider_state ''canceled'' 7)
   \<and> data_object newer_event = Subscription (provider_state ''canceled'' 7)
   \<and> (\<forall>v. saveFails example_env v = None)
   \<and> map subscription (dispatchEvent example_env newer_event
                           (dispatchEvent example_env older_event [example_user]))
       = map subscription (dispatchEvent example_env newer_event [example_user])"
proof -
  have a: "ev_type older_event = ''customer.subscription.created''
      \<or> ev_type older_event = ''customer.subscription.updated''"
    by (simp add: older_event_def)
  have b: "ev_type newer_event = ''customer.subscription.created''
      \<or> ev_type newer_event = ''customer.subscription.updated''"
    by (simp add: newer_event_def)
  have same: "obj_id (data_object older_event) = sub_id (provider_state ''canceled'' 7)"
    by (simp add: older_event_def provider_state_def)
  have obj: "data_object newer_event = Subscription (provider_state ''canceled'' 7)"
    by (simp add: newer_event_def)
  have items: "price_ids (provider_state ''canceled'' 7) = ''price_monthly'' # []"
    by (simp add: provider_state_def)
  have ok: "saveFails example_env v = None" for v
    by (simp add: example_env_def)
  from last_delivered_event_wins [OF a b same obj items ok, of "[example_user]"]
  show ?thesis using same obj ok by simp
qed

subsection \<open>The signature check of the endpoint\<close>

lemma missing_signature_rejected:
  "\<not> truthy (stripe_signature req) \<Longrightarrow>
   handleStripeWebhook e req db = (Inl (ApiError BAD_REQUEST ''Missing Stripe signature''), db)"
  by (auto simp: handleStripeWebhook_def truthy_def split: option.splits)

lemma rejected_call_leaves_collection:
  "stripe_signature req = Some sg \<Longrightarrow> sg \<noteq> [] \<Longrightarrow>
   constructEvent e sg (body req) (webhookSecret e) = Inl err \<Longrightarrow>
   handleStripeWebhook e req db
     = (Inl (ApiError BAD_REQUEST (''Webhook error: '' @ message err)), db)"
  by (simp add: handleStripeWebhook_def constructEventFromPayload_def)

lemma accepted_call_answers_ok:
  "stripe_signature req = Some sg \<Longrightarrow> sg \<noteq> [] \<Longrightarrow>
   constructEvent e sg (body req) (webhookSecret e) = Inr ev \<Longrightarrow>
   handleStripeWebhook e req db = (Inr (OK, Received), dispatchEvent e ev db)"
  by (simp add: handleStripeWebhook_def constructEventFromPayload_def)


subsection \<open>Event types without a case\<close>




subsection \<open>Errors inside the handlers\<close>





subsection \<open>The subscription query\<close>



subsection \<open>Cancellation\<close>

lemma findById_write_back:
  "findById uid db = Some u \<Longrightarrow> user_id u' = user_id u \<Longrightarrow>
   findById uid (write_back u' db) = Some u'"
  unfolding findById_def findOne_def
  by (frule find_Some_holds, erule find_write_back) simp_all

text \<open>Claim C7. For a user with a subscription id, when the provider accepts the
  request and the store the write: cancelling at the period end sends the update with
  \<open>cancel_at_period_end\<close> true and leaves the record active with the flag set; cancelling
  at once sends the cancellation and leaves the record canceled (the flag cleared). The
  record's other fields stay.\<close>

theorem cancelSubscription_effect:
  assumes found: "findById userId (users w) = Some u"
    and s: "subscription u = Some s"
    and sid: "subscriptionId s = Some sid" "sid \<noteq> []"
    and accepted: "provider e (cancelRequest sid atPeriodEnd) = Inr answer"
    and stored: "\<And>v. saveFails e v = None"
  shows "requests (snd (cancelSubscription e userId (\<not> atPeriodEnd) w))
           = requests w @ [if atPeriodEnd then SubscriptionsUpdate sid (Some True) None
                           else SubscriptionsCancel sid]
       \<and> findById userId (users (snd (cancelSubscription e userId (\<not> atPeriodEnd) w)))
           = Some (u\<lparr>subscription := Some
                       (s\<lparr>status := Some (if atPeriodEnd then ''active'' else ''canceled''),
                          cancelAtPeriodEnd := atPeriodEnd\<rparr>)\<rparr>)"
proof -
  let ?u' = "u\<lparr>subscription := Some
                 (s\<lparr>status := Some (if atPeriodEnd then ''active'' else ''canceled''),
                    cancelAtPeriodEnd := atPeriodEnd\<rparr>)\<rparr>"
  have w': "snd (cancelSubscription e userId (\<not> atPeriodEnd) w)
        = w\<lparr>requests := requests w @ [cancelRequest sid atPeriodEnd], users := write_back ?u' (users w)\<rparr>"
    using found s sid accepted stored
    by (simp add: cancelSubscription_def stripe_cancelSubscription_def send_def save_def
          split: option.splits)
  have "findById userId (write_back ?u' (users w)) = Some ?u'"
    using found by (rule findById_write_back) simp
  with w' show ?thesis by (simp add: cancelRequest_def)
qed

text \<open>Witness for C7: the sample user cancels at the period end, and at once.\<close>

theorem cancelSubscription_effect_witness:
  "findById ''u1'' (users \<lparr>users = [example_user], requests = []\<rparr>) = Some example_user
   \<and> (\<forall>v. saveFails example_env v = None)
   \<and> requests (snd (cancelSubscription example_env ''u1'' False
                       \<lparr>users = [example_user], requests = []\<rparr>))
       = [SubscriptionsUpdate ''sub_1'' (Some True) None]
   \<and> users (snd (cancelSubscription example_env ''u1'' False
                       \<lparr>users = [example_user], requests = []\<rparr>))
       = [example_user\<lparr>subscription := Some
            (example_subscription\<lparr>status := Some ''active'', cancelAtPeriodEnd := True\<rparr>)\<rparr>]
   \<and> requests (snd (cancelSubscription example_env ''u1'' True
                       \<lparr>users = [example_user], requests = []\<rparr>))
       = [SubscriptionsCancel ''sub_1'']
   \<and> findById ''u1'' (users (snd (cancelSubscription example_env ''u1'' True
                       \<lparr>users = [example_user], requests = []\<rparr>)))
       = Some (example_user\<lparr>subscription := Some
            (example_subscription\<lparr>status := Some ''canceled'', cancelAtPeriodEnd := False\<rparr>)\<rparr>)"
proof -
  let ?w = "\<lparr>users = [example_user], requests = []\<rparr>"
  have f: "findById ''u1'' (users ?w) = Some example_user"
    by (simp add: findById_def findOne_def example_user_def)
  have s: "subscription example_user = Some example_subscription"
    by (simp add: example_user_def)
  have i: "subscriptionId example_subscription = Some ''sub_1''" "''sub_1'' \<noteq> []"
    by (simp_all add: example_subscription_def)
  have p: "provider example_env (cancelRequest ''sub_1'' b) = Inr (provider_state ''active'' 5)" for b
    by (simp add: example_env_def)
  have ok: "saveFails example_env v = None" for v
    by (simp add: example_env_def)
  note at_end = cancelSubscription_effect [OF f s i p ok, of True]
  note now = cancelSubscription_effect [OF f s i p ok, of False]
  have "users (snd (cancelSubscription example_env ''u1'' False ?w))
       = [example_user\<lparr>subscription := Some
            (example_subscription\<lparr>status := Some ''active'', cancelAtPeriodEnd := True\<rparr>)\<rparr>]"
    by (simp add: cancelSubscription_def stripe_cancelSubscription_def send_def save_def
          write_back_def findById_def findOne_def example_user_def example_subscription_def
          example_env_def)
  with at_end now f ok show ?thesis by simp
qed

subsection \<open>Reactivation\<close>

lemma reactivation_needs_subscription:
  "findById userId (users w) = Some u \<Longrightarrow>
   (case subscription u of None \<Rightarrow> True | Some s \<Rightarrow> \<not> truthy (subscriptionId s)) \<Longrightarrow>
   reactivateSubscription e userId w
     = (Inl (ApiError BAD_REQUEST ''No subscription found to reactivate''), w)"
  by (auto simp: reactivateSubscription_def truthy_def split: option.splits)

lemma reactivation_needs_schedule:
  "findById userId (users w) = Some u \<Longrightarrow> subscription u = Some s \<Longrightarrow>
   truthy (subscriptionId s) \<Longrightarrow> \<not> cancelAtPeriodEnd s \<Longrightarrow>
   reactivateSubscription e userId w
     = (Inl (ApiError BAD_REQUEST ''Subscription is not scheduled for cancellation''), w)"
  by (auto simp: reactivateSubscription_def truthy_def split: option.splits)

text \<open>Claim C10, at a user scheduled for cancellation. The endpoint throws a TypeError
  before it reaches the provider or the store: no request is sent, the flag stays
  set.\<close>

theorem reactivation_throws:
  "findById ''u1'' [scheduled_user] = Some scheduled_user
   \<and> subscription scheduled_user
       = Some (example_subscription\<lparr>status := Some ''active'', cancelAtPeriodEnd := True\<rparr>)
   \<and> reactivateSubscription example_env ''u1'' \<lparr>users = [scheduled_user], requests = []\<rparr>
       = (Inl (TypeError ''Cannot read properties of undefined (reading 'update')''),
          \<lparr>users = [scheduled_user], requests = []\<rparr>)"
  by (simp add: reactivateSubscription_def findById_def findOne_def scheduled_user_def
        example_user_def example_subscription_def stripe_exports_def)

lemma reactivateSubscription_never_answers:
  "\<exists>err. reactivateSubscription e userId w = (Inl err, w)"
  by (simp add: reactivateSubscription_def stripe_exports_def split: option.splits)

subsection \<open>The record invariant is preserved\<close>















end
